theory Spec2Isabelle
  imports Complex_Main
begin

section \<open>JavaScript values used by the webhook\<close>

text \<open>
  The repository holds two variants of the same Stripe webhook server.
  \<^item> \<^verbatim>\<open>src/server.js\<close> derives tier and credits from the amount paid (or from
    the session's tier metadata) and writes an 11-column row.
  \<^item> \<^verbatim>\<open>src/unnamed/part_000\<close> (the line-item variant) fetches the session's
    line items, looks the first price identifier up in \<^verbatim>\<open>TIER_CONFIG\<close> and writes
    an 8-column row. Its definitions carry the suffix \<open>_li\<close>.

  Numbers are exact rationals: the binary rounding of JavaScript doubles is not
  modelled (\<^verbatim>\<open>1.3\<close> is \<open>13/10\<close>). A value that may be \<^verbatim>\<open>null\<close> or
  \<^verbatim>\<open>undefined\<close> is an \<open>option\<close>.
\<close>

datatype js_value = JStr string | JNum rat | JUndefined

datatype error = Error string | TypeError string

text \<open>Truthiness of a string that may be absent: \<^verbatim>\<open>undefined\<close>, \<^verbatim>\<open>null\<close> and \<^verbatim>\<open>''\<close> are falsy.\<close>

definition truthy :: "string option \<Rightarrow> bool" where
  "truthy v = (case v of None \<Rightarrow> False | Some s \<Rightarrow> s \<noteq> [])"

text \<open>\<^verbatim>\<open>a || d\<close> for a string \<open>a\<close> that may be absent and a string \<open>d\<close>.\<close>

definition or_string :: "string option \<Rightarrow> string \<Rightarrow> string" where
  "or_string a d = (case a of None \<Rightarrow> d | Some s \<Rightarrow> if s = [] then d else s)"

text \<open>\<^verbatim>\<open>a || b\<close> for two strings that may be absent.\<close>

definition or_option :: "string option \<Rightarrow> string option \<Rightarrow> string option" where
  "or_option a b = (if truthy a then a else b)"

text \<open>\<^verbatim>\<open>x || 0\<close> for a number that may be absent.\<close>

definition or_zero :: "'a::zero option \<Rightarrow> 'a" where
  "or_zero x = (case x of None \<Rightarrow> 0 | Some n \<Rightarrow> if n = 0 then 0 else n)"

text \<open>\<^verbatim>\<open>Math.round\<close>: the nearest integer, a tie going up.\<close>

definition Math_round :: "rat \<Rightarrow> int" where
  "Math_round x = \<lfloor>x + 1 / 2\<rfloor>"

section \<open>Data model\<close>

record customer_details =
  details_email :: "string option"

text \<open>
  The checkout session of the payment processor. \<open>amount_total\<close> is in cents;
  \<open>None\<close> is a \<^verbatim>\<open>null\<close> amount.
\<close>

record session =
  session_id :: string
  metadata :: "(string \<rightharpoonup> string) option"
  amount_total :: "int option"
  customer_details :: "customer_details option"
  customer_email :: "string option"
  customer :: "string option"

record event =
  event_type :: string
  data_object :: session

record price =
  price_id :: string

record line_item =
  item_price :: "price option"

record request =
  stripe_signature :: "string option"
  body :: string

datatype response_body = Text string | Json_received_true

type_synonym response = "nat \<times> response_body"

text \<open>The variables of \<^verbatim>\<open>process.env\<close> that the servers read.\<close>

record env =
  STRIPE_SECRET_KEY :: "string option"
  STRIPE_WEBHOOK_SECRET :: "string option"
  GOOGLE_SHEETS_SPREADSHEET_ID :: "string option"
  GOOGLE_SHEETS_TAB_NAME :: "string option"
  GOOGLE_SERVICE_ACCOUNT_KEY :: "string option"
  GOOGLE_SERVICE_ACCOUNT_KEY_JSON :: "string option"

section \<open>The outside world\<close>

text \<open>
  The external collaborators are parameters of the model: the processor's
  signature check (\<open>Inl\<close> carries the message of the error it throws), its
  line-item listing (\<open>Inl\<close> a failed call, \<open>Inr None\<close> a reply without
  \<^verbatim>\<open>data\<close>), whether the ledger's append call throws, the clock in its two
  renderings, and the JSON parser and file system read at startup.
\<close>

record world =
  constructEvent :: "string \<Rightarrow> string option \<Rightarrow> string option \<Rightarrow> string + event"
  listLineItems :: "string \<Rightarrow> nat \<Rightarrow> string + line_item list option"
  append_failure :: "string option"
  toISOString :: string
  toLocaleString :: string
  JSON_parses :: "string \<Rightarrow> bool"
  readFileSync :: "string \<rightharpoonup> string"

text \<open>Outbound calls, in the order they are made.\<close>

datatype call =
  ListLineItems string nat
| ValuesAppend "string option" string "js_value list"

text \<open>The ledger (the rows of the sheet) and the trace of outbound calls.\<close>

record outside =
  sheet :: "js_value list list"
  calls :: "call list"

text \<open>
  \<^verbatim>\<open>sheetsClient.spreadsheets.values.append\<close>: the call is made; it either
  throws or adds the row below the last one.
\<close>

definition values_append ::
  "world \<Rightarrow> string option \<Rightarrow> string \<Rightarrow> js_value list \<Rightarrow> outside \<Rightarrow> (error + unit) \<times> outside" where
  "values_append w spreadsheetId rng row st =
     (let st' = st\<lparr>calls := calls st @ [ValuesAppend spreadsheetId rng row]\<rparr>
      in case append_failure w of
           Some msg \<Rightarrow> (Inl (Error msg), st')
         | None \<Rightarrow> (Inr (), st'\<lparr>sheet := sheet st' @ [row]\<rparr>))"

text \<open>The calls of a trace that append to the ledger.\<close>

fun is_append :: "call \<Rightarrow> bool" where
  "is_append (ValuesAppend i r row) = True"
| "is_append (ListLineItems s n) = False"

section \<open>server.js\<close>

definition AGREEMENT_VERSION :: string where
  "AGREEMENT_VERSION = ''v1.0''"

definition SPREADSHEET_ID :: "env \<Rightarrow> string option" where
  "SPREADSHEET_ID e = GOOGLE_SHEETS_SPREADSHEET_ID e"

definition SHEET_NAME :: "env \<Rightarrow> string" where
  "SHEET_NAME e = or_string (GOOGLE_SHEETS_TAB_NAME e) ''Sheet1''"

subsection \<open>Tier and credits\<close>

text \<open>The value of \<^verbatim>\<open>session.metadata && session.metadata.tier\<close>, when it is a string.\<close>

definition metadata_tier :: "session \<Rightarrow> string option" where
  "metadata_tier s = (case metadata s of None \<Rightarrow> None | Some m \<Rightarrow> m ''tier'')"

definition resolveTier :: "session \<Rightarrow> string" where
  "resolveTier s =
     (case metadata_tier s of
        Some (c # cs) \<Rightarrow> c # cs
      | _ \<Rightarrow>
          (let amountTotal = (of_int (or_zero (amount_total s)) / 100 :: rat)
           in if amountTotal \<ge> 5000 then ''Titan''
              else if amountTotal \<ge> 2000 then ''Gold''
              else if amountTotal \<ge> 750 then ''Silver''
              else if amountTotal \<ge> 250 then ''Bronze''
              else ''Unknown''))"

definition resolveCredits :: "string \<Rightarrow> rat \<Rightarrow> int" where
  "resolveCredits tier amountTotal =
     (let rounded = Math_round amountTotal
      in if rounded = 250 then 325
         else if rounded = 750 then 1050
         else if rounded = 2000 then 3000
         else if rounded = 5000 then 8000
         else Math_round (amountTotal * (13 / 10)))"

subsection \<open>The ledger writer\<close>

record founder =
  timestampUtc :: string
  timestampLocal :: string
  email :: string
  tier :: string
  amountTotal :: rat
  credits :: int
  sessionId :: string
  customerId :: string
  founder_notes :: string
  agreementVersion :: string

definition founder_row :: "founder \<Rightarrow> js_value list" where
  "founder_row f =
     [JStr (timestampUtc f),
      JStr (timestampLocal f),
      JStr (or_string (Some (email f)) ''''),
      JStr (or_string (Some (tier f)) ''''),
      JNum (or_zero (Some (amountTotal f))),
      JNum (of_int (or_zero (Some (credits f)))),
      JStr (or_string (Some (sessionId f)) ''''),
      JStr (or_string (Some (customerId f)) ''''),
      JStr (or_string (Some (founder_notes f)) ''''),
      JStr '''',
      JStr (or_string (Some (agreementVersion f)) '''')]"

definition appendToSheet :: "world \<Rightarrow> env \<Rightarrow> founder \<Rightarrow> outside \<Rightarrow> (error + unit) \<times> outside" where
  "appendToSheet w e f st =
     (let row = founder_row f
      in values_append w (SPREADSHEET_ID e) (SHEET_NAME e @ ''!A:K'') row st)"

subsection \<open>The webhook handler\<close>

definition founderRecord :: "world \<Rightarrow> session \<Rightarrow> founder" where
  "founderRecord w s =
     (let email =
            or_string
              (or_option (case customer_details s of None \<Rightarrow> None | Some d \<Rightarrow> details_email d)
                 (customer_email s))
              '''';
          amountTotal = (of_int (or_zero (amount_total s)) / 100 :: rat);
          tier = resolveTier s;
          credits = resolveCredits tier amountTotal
      in \<lparr>timestampUtc = toISOString w,
          timestampLocal = toLocaleString w,
          email = email,
          tier = tier,
          amountTotal = amountTotal,
          credits = credits,
          sessionId = session_id s,
          customerId = or_string (customer s) '''',
          founder_notes = '''',
          agreementVersion = AGREEMENT_VERSION\<rparr>)"

text \<open>The \<^verbatim>\<open>catch\<close> of the source logs the error and throws it again.\<close>

definition handleCheckoutCompleted ::
  "world \<Rightarrow> env \<Rightarrow> session \<Rightarrow> outside \<Rightarrow> (error + unit) \<times> outside" where
  "handleCheckoutCompleted w e s st = appendToSheet w e (founderRecord w s) st"

definition stripe_webhook :: "world \<Rightarrow> env \<Rightarrow> request \<Rightarrow> outside \<Rightarrow> response \<times> outside" where
  "stripe_webhook w e req st =
     (let sig = stripe_signature req
      in if \<not> truthy (STRIPE_WEBHOOK_SECRET e)
         then ((500, Text ''Webhook secret not configured''), st)
         else
           (case constructEvent w (body req) sig (STRIPE_WEBHOOK_SECRET e) of
              Inl message \<Rightarrow> ((400, Text (''Webhook Error: '' @ message)), st)
            | Inr ev \<Rightarrow>
                if event_type ev = ''checkout.session.completed''
                then
                  (case handleCheckoutCompleted w e (data_object ev) st of
                     (Inl err, st') \<Rightarrow> ((500, Text ''Internal Server Error''), st')
                   | (Inr u, st') \<Rightarrow> ((200, Json_received_true), st'))
                else ((200, Json_received_true), st)))"

subsection \<open>Startup and routing\<close>

datatype process = Exited nat | Listening

text \<open>
  The module's top level: the check of the Stripe API key, the loading of the
  service-account credentials, then \<^verbatim>\<open>app.listen\<close>.
\<close>

definition startup :: "world \<Rightarrow> env \<Rightarrow> process" where
  "startup w e =
     (if \<not> truthy (STRIPE_SECRET_KEY e) then Exited 1
      else if truthy (GOOGLE_SERVICE_ACCOUNT_KEY e)
      then
        (if JSON_parses w (or_string (GOOGLE_SERVICE_ACCOUNT_KEY e) '''') then Listening
         else Exited 1)
      else
        (let jsonPath = or_string (GOOGLE_SERVICE_ACCOUNT_KEY_JSON e) ''./service-account.json''
         in case readFileSync w jsonPath of
              None \<Rightarrow> Exited 1
            | Some raw \<Rightarrow> if JSON_parses w raw then Listening else Exited 1))"

datatype http_request = GET_root | POST_stripe_webhook request

definition route :: "world \<Rightarrow> env \<Rightarrow> http_request \<Rightarrow> outside \<Rightarrow> response \<times> outside" where
  "route w e r st =
     (case r of
        GET_root \<Rightarrow> ((200, Text ''AICX Stripe webhook is live.''), st)
      | POST_stripe_webhook req \<Rightarrow> stripe_webhook w e req st)"

text \<open>A process that exited answers nothing: the reply is \<open>None\<close>.\<close>

definition server :: "world \<Rightarrow> env \<Rightarrow> http_request \<Rightarrow> outside \<Rightarrow> response option \<times> outside" where
  "server w e r st =
     (case startup w e of
        Exited code \<Rightarrow> (None, st)
      | Listening \<Rightarrow> (case route w e r st of (res, st') \<Rightarrow> (Some res, st')))"

section \<open>The line-item variant (src/unnamed/part_000)\<close>

record tier_config =
  config_tier :: string
  contribution :: int
  config_credits :: int

definition TIER_CONFIG :: "(string \<times> tier_config) list" where
  "TIER_CONFIG =
     [(''price_1SWcyzHeOH2hxFO3a1RWyyv1'',
         \<lparr>config_tier = ''Bronze'', contribution = 250, config_credits = 325\<rparr>),
      (''price_1SWd8MHeOH2hxFO3PycEn43V'',
         \<lparr>config_tier = ''Silver'', contribution = 750, config_credits = 1050\<rparr>),
      (''price_1SWdDaHeOH2hxFO31X6W21AK'',
         \<lparr>config_tier = ''Gold'', contribution = 2000, config_credits = 3000\<rparr>),
      (''price_1SWdGPHeOH2hxFO3ZsLDEvhK'',
         \<lparr>config_tier = ''Titan'', contribution = 5000, config_credits = 8000\<rparr>)]"

text \<open>
  \<^verbatim>\<open>TIER_CONFIG\<close> is an object literal, so reading a property of it also finds
  the names every object inherits from \<^verbatim>\<open>Object.prototype\<close>; what is found
  there is truthy and has neither \<^verbatim>\<open>tier\<close> nor \<^verbatim>\<open>credits\<close>.
\<close>

definition Object_prototype_names :: "string list" where
  "Object_prototype_names =
     [''constructor'', ''__defineGetter__'', ''__defineSetter__'', ''hasOwnProperty'',
      ''__lookupGetter__'', ''__lookupSetter__'', ''isPrototypeOf'', ''propertyIsEnumerable'',
      ''toString'', ''valueOf'', ''__proto__'', ''toLocaleString'']"

datatype property = Own tier_config | Inherited | Missing

text \<open>\<^verbatim>\<open>TIER_CONFIG[priceId]\<close>\<close>

definition TIER_CONFIG_get :: "string \<Rightarrow> property" where
  "TIER_CONFIG_get priceId =
     (case map_of TIER_CONFIG priceId of
        Some config \<Rightarrow> Own config
      | None \<Rightarrow> if priceId \<in> set Object_prototype_names then Inherited else Missing)"

definition appendToSheet_li ::
  "world \<Rightarrow> env \<Rightarrow> string \<Rightarrow> string \<Rightarrow> js_value \<Rightarrow> rat \<Rightarrow> js_value \<Rightarrow> string \<Rightarrow> string \<Rightarrow>
     outside \<Rightarrow> (error + unit) \<times> outside" where
  "appendToSheet_li w e =
     (\<lambda>timestamp email tier amountTotal credits sessionId customerId st.
      let spreadsheetId = GOOGLE_SHEETS_SPREADSHEET_ID e;
          tabName = or_string (GOOGLE_SHEETS_TAB_NAME e) ''Sheet1'';
          rng = tabName @ ''!A:H'';
          values =
            [JStr timestamp, JStr email, tier, JNum amountTotal, credits, JStr sessionId,
             JStr customerId, JStr '''']
      in values_append w spreadsheetId rng values st)"

text \<open>
  The tier and the credits read from what the lookup found: \<^verbatim>\<open>undefined\<close> when it
  was an inherited property.
\<close>

definition tier_of :: "property \<Rightarrow> js_value" where
  "tier_of config = (case config of Own c \<Rightarrow> JStr (config_tier c) | _ \<Rightarrow> JUndefined)"

definition credits_of :: "property \<Rightarrow> js_value" where
  "credits_of config =
     (case config of Own c \<Rightarrow> JNum (of_int (config_credits c)) | _ \<Rightarrow> JUndefined)"

text \<open>
  A failed listing call and a first item without a price throw before anything
  is written, as the two explicit checks do. A \<^verbatim>\<open>null\<close> amount divided by 100
  is 0.
\<close>

definition handleCheckoutCompleted_li ::
  "world \<Rightarrow> env \<Rightarrow> session \<Rightarrow> outside \<Rightarrow> (error + unit) \<times> outside" where
  "handleCheckoutCompleted_li w e s st =
     (let st1 = st\<lparr>calls := calls st @ [ListLineItems (session_id s) 10]\<rparr>
      in case listLineItems w (session_id s) 10 of
           Inl message \<Rightarrow> (Inl (Error message), st1)
         | Inr None \<Rightarrow> (Inl (Error ''No line items found on session''), st1)
         | Inr (Some []) \<Rightarrow> (Inl (Error ''No line items found on session''), st1)
         | Inr (Some (firstItem # others)) \<Rightarrow>
             (case item_price firstItem of
                None \<Rightarrow> (Inl (TypeError ''Cannot read properties of null (reading 'id')''), st1)
              | Some p \<Rightarrow>
                  (let priceId = price_id p;
                       config = TIER_CONFIG_get priceId
                   in if config = Missing
                      then (Inl (Error (''Unknown price ID: '' @ priceId)), st1)
                      else
                        (let email =
                               or_string
                                 (or_option
                                    (case customer_details s of
                                       None \<Rightarrow> None
                                     | Some d \<Rightarrow> details_email d)
                                    (customer_email s))
                                 ''unknown'';
                             amountTotal =
                               (of_int (case amount_total s of None \<Rightarrow> 0 | Some c \<Rightarrow> c) / 100 :: rat);
                             timestamp = toISOString w;
                             tier = tier_of config;
                             credits = credits_of config;
                             sessionId = session_id s;
                             customerId = or_string (customer s) ''''
                         in appendToSheet_li w e timestamp email tier amountTotal credits
                              sessionId customerId st1))))"

definition stripe_webhook_li :: "world \<Rightarrow> env \<Rightarrow> request \<Rightarrow> outside \<Rightarrow> response \<times> outside" where
  "stripe_webhook_li w e req st =
     (let sig = stripe_signature req
      in case constructEvent w (body req) sig (STRIPE_WEBHOOK_SECRET e) of
           Inl message \<Rightarrow> ((400, Text (''Webhook Error: '' @ message)), st)
         | Inr ev \<Rightarrow>
             if event_type ev = ''checkout.session.completed''
             then
               (case handleCheckoutCompleted_li w e (data_object ev) st of
                  (Inl err, st') \<Rightarrow> ((500, Text ''Server error''), st')
                | (Inr u, st') \<Rightarrow> ((200, Text ''Received and processed''), st'))
             else ((200, Text ''Event ignored''), st))"

section \<open>Concrete inputs\<close>

text \<open>Sessions, events and worlds on which the theorems below are instantiated.\<close>

definition example_session :: "(string \<rightharpoonup> string) option \<Rightarrow> int option \<Rightarrow> session" where
  "example_session m a =
     \<lparr>session_id = ''cs_test_a1'', metadata = m, amount_total = a,
      customer_details = Some \<lparr>details_email = Some ''founder@example.com''\<rparr>,
      customer_email = None, customer = Some ''cus_1''\<rparr>"

text \<open>
  A world whose verifier accepts one signature under one secret and then yields
  the given event, whose listing returns the given items up to the limit, and
  whose append call fails as given.
\<close>

definition example_world_of :: "event \<Rightarrow> line_item list \<Rightarrow> string option \<Rightarrow> world" where
  "example_world_of ev items failure =
     \<lparr>constructEvent =
        (\<lambda>payload sig secret.
           if sig = Some ''t=1,v1=5257a8'' \<and> secret = Some ''whsec_test''
           then Inr ev
           else Inl ''No signatures found matching the expected signature for payload''),
      listLineItems = (\<lambda>sessionId limit. Inr (Some (take limit items))),
      append_failure = failure,
      toISOString = ''2025-01-01T00:00:00.000Z'',
      toLocaleString = ''12/31/2024, 6:00:00 PM'',
      JSON_parses = (\<lambda>raw. raw \<noteq> []),
      readFileSync = Map.empty\<rparr>"

definition example_event :: "string \<Rightarrow> session \<Rightarrow> event" where
  "example_event ty s = \<lparr>event_type = ty, data_object = s\<rparr>"

definition example_world :: world where
  "example_world =
     example_world_of
       (example_event ''checkout.session.completed'' (example_session None (Some 25000))) [] None"

definition example_env :: "string option \<Rightarrow> env" where
  "example_env secret =
     \<lparr>STRIPE_SECRET_KEY = Some ''sk_test_1'',
      STRIPE_WEBHOOK_SECRET = secret,
      GOOGLE_SHEETS_SPREADSHEET_ID = Some ''sheet_1'',
      GOOGLE_SHEETS_TAB_NAME = None,
      GOOGLE_SERVICE_ACCOUNT_KEY = Some ''{}'',
      GOOGLE_SERVICE_ACCOUNT_KEY_JSON = None\<rparr>"

definition example_request :: "string option \<Rightarrow> request" where
  "example_request sig = \<lparr>stripe_signature = sig, body = ''{}''\<rparr>"

definition example_outside :: outside where
  "example_outside = \<lparr>sheet = [], calls = []\<rparr>"

definition example_world_ignored :: world where
  "example_world_ignored =
     example_world_of (example_event ''invoice.paid'' (example_session None (Some 25000))) [] None"

definition example_item :: "string \<Rightarrow> line_item" where
  "example_item priceId = \<lparr>item_price = Some \<lparr>price_id = priceId\<rparr>\<rparr>"

definition example_checkout :: event where
  "example_checkout =
     example_event ''checkout.session.completed'' (example_session None (Some 25000))"

definition example_world_bronze :: world where
  "example_world_bronze =
     example_world_of example_checkout
       [example_item ''price_1SWcyzHeOH2hxFO3a1RWyyv1'', example_item ''price_1SWdGPHeOH2hxFO3ZsLDEvhK'']
       None"

definition example_row :: "js_value list" where
  "example_row =
     [JStr ''2025-01-01T00:00:00.000Z'', JStr ''12/31/2024, 6:00:00 PM'',
      JStr ''founder@example.com'', JStr ''Bronze'', JNum 250, JNum 325, JStr ''cs_test_a1'',
      JStr ''cus_1'', JStr '''', JStr '''', JStr ''v1.0'']"

definition example_row_li :: "js_value list" where
  "example_row_li =
     [JStr ''2025-01-01T00:00:00.000Z'', JStr ''founder@example.com'', JStr ''Bronze'', JNum 250,
      JNum 325, JStr ''cs_test_a1'', JStr ''cus_1'', JStr '''']"

section \<open>Arithmetic of rounding\<close>

lemma floor_rat_numeral_div [simp]:
  "\<lfloor>numeral a / numeral b :: rat\<rfloor> = numeral a div numeral b"
  by (metis floor_divide_of_int_eq of_int_numeral)

lemma floor_rat_neg_numeral_div [simp]:
  "\<lfloor>- (numeral a / numeral b) :: rat\<rfloor> = - numeral a div numeral b"
  by (metis divide_minus_left floor_divide_of_int_eq of_int_neg_numeral of_int_numeral)

lemma floor_rat_one_div [simp]:
  "\<lfloor>1 / numeral b :: rat\<rfloor> = 1 div numeral b"
  by (metis floor_divide_of_int_eq of_int_1 of_int_numeral)

lemma Math_round_nonpositive:
  assumes "a \<le> 0"
  shows "Math_round a \<le> 0"
  using assms unfolding Math_round_def by (simp add: floor_le_iff)

section \<open>Tier resolver\<close>

lemma resolveTier_untagged:
  assumes "\<not> truthy (metadata_tier s)"
  shows "resolveTier s =
           (let amountTotal = (of_int (or_zero (amount_total s)) / 100 :: rat)
            in if amountTotal \<ge> 5000 then ''Titan''
               else if amountTotal \<ge> 2000 then ''Gold''
               else if amountTotal \<ge> 750 then ''Silver''
               else if amountTotal \<ge> 250 then ''Bronze''
               else ''Unknown'')"
  using assms by (simp add: resolveTier_def truthy_def split: option.splits list.splits)

lemma resolveTier_tagged:
  assumes "metadata_tier s = Some t" and "t \<noteq> []"
  shows "resolveTier s = t"
  using assms by (simp add: resolveTier_def split: list.splits)

lemma resolveCredits_table:
  "resolveCredits t 250 = 325" "resolveCredits t 750 = 1050"
  "resolveCredits t 2000 = 3000" "resolveCredits t 5000 = 8000"
  by (simp_all add: resolveCredits_def Math_round_def Let_def)

lemma resolveCredits_fallback:
  assumes "Math_round amount \<notin> {250, 750, 2000, 5000}"
  shows "resolveCredits t amount = Math_round (amount * (13 / 10))"
  using assms by (simp add: resolveCredits_def Let_def)

lemma resolveCredits_nonpositive:
  assumes "amount \<le> 0"
  shows "resolveCredits t amount = Math_round (amount * (13 / 10))"
    and "resolveCredits t amount \<le> 0"
proof -
  have r: "Math_round amount \<le> 0"
    using assms by (rule Math_round_nonpositive)
  then show eq: "resolveCredits t amount = Math_round (amount * (13 / 10))"
    by (intro resolveCredits_fallback) auto
  have "amount * (13 / 10) \<le> 0"
    using assms by (simp add: mult_le_0_iff)
  then show "resolveCredits t amount \<le> 0"
    unfolding eq by (rule Math_round_nonpositive)
qed

text \<open>
  C1. A session without tier metadata (none, or a falsy value) is classified by
  its amount in dollars against the thresholds 5000, 2000, 750 and 250 taken in
  descending order, the first that the amount reaches giving the tier and an
  amount below 250 giving the sentinel \<^verbatim>\<open>'Unknown'\<close>; and \<open>resolveCredits\<close>
  returns 325, 1050, 3000 and 8000 for the amounts 250, 750, 2000 and 5000.
\<close>

theorem tier_by_descending_thresholds:
  assumes "\<not> truthy (metadata_tier s)"
    and "amount = (of_int (or_zero (amount_total s)) / 100 :: rat)"
  shows "resolveTier s =
           (if amount \<ge> 5000 then ''Titan''
            else if amount \<ge> 2000 then ''Gold''
            else if amount \<ge> 750 then ''Silver''
            else if amount \<ge> 250 then ''Bronze''
            else ''Unknown'')
         \<and> resolveCredits t 250 = 325 \<and> resolveCredits t 750 = 1050
         \<and> resolveCredits t 2000 = 3000 \<and> resolveCredits t 5000 = 8000"
  using resolveTier_untagged [OF assms(1)] assms(2) resolveCredits_table [of t]
  by (simp add: Let_def)

theorem tier_by_descending_thresholds_witness:
  "\<not> truthy (metadata_tier (example_session None (Some 25000)))
   \<and> resolveTier (example_session None (Some 25000)) = ''Bronze''
   \<and> resolveTier (example_session (Some Map.empty) (Some 75000)) = ''Silver''
   \<and> resolveTier (example_session (Some [''tier'' \<mapsto> '''']) (Some 200000)) = ''Gold''
   \<and> resolveTier (example_session None (Some 500000)) = ''Titan''
   \<and> resolveTier (example_session None (Some 24999)) = ''Unknown''
   \<and> resolveTier (example_session None None) = ''Unknown''
   \<and> resolveCredits ''Bronze'' 250 = 325"
  using tier_by_descending_thresholds [of "example_session None (Some 25000)" 250 "''Bronze''"]
    tier_by_descending_thresholds [of "example_session (Some Map.empty) (Some 75000)" 750 "''Silver''"]
    tier_by_descending_thresholds [of "example_session (Some [''tier'' \<mapsto> '''']) (Some 200000)" 2000 "''Gold''"]
    tier_by_descending_thresholds [of "example_session None (Some 500000)" 5000 "''Titan''"]
    tier_by_descending_thresholds [of "example_session None (Some 24999)" "24999 / 100" "''x''"]
    tier_by_descending_thresholds [of "example_session None None" 0 "''x''"]
  by (simp add: example_session_def metadata_tier_def truthy_def or_zero_def)

text \<open>
  C3. When the amount rounded to the nearest integer is none of 250, 750, 2000
  and 5000, \<open>resolveCredits\<close> returns the amount times 1.3, rounded: 1300 for
  1000.00, whose threshold tier is \<^verbatim>\<open>'Silver'\<close>. An amount of zero or less has the
  tier \<^verbatim>\<open>'Unknown'\<close> and the fallback credits, which are then zero or negative
  (0 for 0, -13 for -10).
\<close>

theorem fallback_credits:
  "(Math_round amount \<notin> {250, 750, 2000, 5000} \<longrightarrow>
      resolveCredits t amount = Math_round (amount * (13 / 10)))
   \<and> resolveCredits t 1000 = 1300
   \<and> (\<not> truthy (metadata_tier s) \<and> amount_total s = Some 100000 \<longrightarrow> resolveTier s = ''Silver'')
   \<and> (low \<le> 0 \<longrightarrow>
        resolveCredits t low = Math_round (low * (13 / 10)) \<and> resolveCredits t low \<le> 0)
   \<and> (\<not> truthy (metadata_tier s') \<and> or_zero (amount_total s') \<le> 0 \<longrightarrow>
        resolveTier s' = ''Unknown'')
   \<and> resolveCredits t 0 = 0 \<and> resolveCredits t (- 10) = - 13"
proof -
  have a: "Math_round amount \<notin> {250, 750, 2000, 5000} \<longrightarrow>
      resolveCredits t amount = Math_round (amount * (13 / 10))"
    using resolveCredits_fallback by blast
  have b: "resolveCredits t 1000 = 1300"
    by (simp add: resolveCredits_def Math_round_def Let_def)
  have c: "\<not> truthy (metadata_tier s) \<and> amount_total s = Some 100000 \<longrightarrow> resolveTier s = ''Silver''"
    by (simp add: resolveTier_untagged or_zero_def)
  have d: "low \<le> 0 \<longrightarrow>
        resolveCredits t low = Math_round (low * (13 / 10)) \<and> resolveCredits t low \<le> 0"
    using resolveCredits_nonpositive by blast
  have e: "\<not> truthy (metadata_tier s') \<and> or_zero (amount_total s') \<le> 0 \<longrightarrow>
        resolveTier s' = ''Unknown''"
  proof (intro impI, elim conjE)
    assume m: "\<not> truthy (metadata_tier s')" and n: "or_zero (amount_total s') \<le> 0"
    have "(of_int (or_zero (amount_total s')) / 100 :: rat) \<le> 0"
      using n by (simp add: divide_le_0_iff)
    then show "resolveTier s' = ''Unknown''"
      using resolveTier_untagged [OF m] by (simp add: Let_def)
  qed
  have f: "resolveCredits t 0 = 0" "resolveCredits t (- 10) = - 13"
    by (simp_all add: resolveCredits_def Math_round_def Let_def)
  from a b c d e f show ?thesis by blast
qed

theorem fallback_credits_witness:
  "Math_round (1234 / 100) \<notin> {250, 750, 2000, 5000}
   \<and> resolveCredits ''Unknown'' (1234 / 100) = 16
   \<and> resolveTier (example_session None (Some 100000)) = ''Silver''
   \<and> resolveCredits ''Unknown'' (- 5 / 2) = - 3
   \<and> resolveTier (example_session None (Some (- 250))) = ''Unknown''"
  using fallback_credits [of "1234 / 100" "''Unknown''" "example_session None (Some 100000)"
      "- 5 / 2" "example_session None (Some (- 250))"]
  by (simp add: example_session_def metadata_tier_def truthy_def or_zero_def Math_round_def)

text \<open>
  C4. A session with a (truthy) tier in its metadata resolves to that tier
  whatever its amount is, and its credits are those of the amount alone: the
  tier passed to \<open>resolveCredits\<close> and the metadata do not change them. With
  tier \<^verbatim>\<open>'Gold'\<close> and 10.00 paid the record holds \<^verbatim>\<open>'Gold'\<close> and 13 credits.
\<close>

theorem metadata_tier_is_authoritative:
  assumes "metadata_tier s = Some t" and "t \<noteq> []"
  shows "resolveTier s = t
         \<and> resolveTier (s\<lparr>amount_total := a\<rparr>) = t
         \<and> tier (founderRecord w s) = t
         \<and> credits (founderRecord w s) =
             resolveCredits t' (of_int (or_zero (amount_total s)) / 100)
         \<and> credits (founderRecord w s) = credits (founderRecord w (s\<lparr>metadata := m\<rparr>))"
proof -
  have "metadata_tier (s\<lparr>amount_total := a\<rparr>) = Some t"
    using assms(1) by (simp add: metadata_tier_def)
  then have "resolveTier (s\<lparr>amount_total := a\<rparr>) = t"
    using assms(2) by (rule resolveTier_tagged)
  moreover have "resolveTier s = t"
    using assms by (rule resolveTier_tagged)
  moreover have "resolveCredits x y = resolveCredits t' y" for x y
    by (simp add: resolveCredits_def)
  ultimately show ?thesis
    by (simp add: founderRecord_def Let_def resolveCredits_def)
qed

theorem metadata_tier_is_authoritative_witness:
  "metadata_tier (example_session (Some [''tier'' \<mapsto> ''Gold'']) (Some 1000)) = Some ''Gold''
   \<and> resolveTier (example_session (Some [''tier'' \<mapsto> ''Gold'']) (Some 1000)) = ''Gold''
   \<and> tier (founderRecord example_world
        (example_session (Some [''tier'' \<mapsto> ''Gold'']) (Some 1000))) = ''Gold''
   \<and> credits (founderRecord example_world
        (example_session (Some [''tier'' \<mapsto> ''Gold'']) (Some 1000))) = 13"
  using metadata_tier_is_authoritative
    [of "example_session (Some [''tier'' \<mapsto> ''Gold'']) (Some 1000)" "''Gold''" "Some 500000"
      example_world "''Unknown''" None]
  by (simp add: example_session_def metadata_tier_def or_zero_def resolveCredits_def
      Math_round_def Let_def)

section \<open>The webhook endpoint\<close>

lemma values_append_eq:
  "values_append w i r row st =
     (case append_failure w of
        None \<Rightarrow> (Inr (), st\<lparr>sheet := sheet st @ [row], calls := calls st @ [ValuesAppend i r row]\<rparr>)
      | Some msg \<Rightarrow> (Inl (Error msg), st\<lparr>calls := calls st @ [ValuesAppend i r row]\<rparr>))"
  by (simp add: values_append_def Let_def split: option.splits)

lemma stripe_webhook_unconfigured:
  assumes "\<not> truthy (STRIPE_WEBHOOK_SECRET e)"
  shows "stripe_webhook w e req st = ((500, Text ''Webhook secret not configured''), st)"
  using assms by (simp add: stripe_webhook_def)

lemma stripe_webhook_rejected:
  assumes "truthy (STRIPE_WEBHOOK_SECRET e)"
    and "constructEvent w (body req) (stripe_signature req) (STRIPE_WEBHOOK_SECRET e) = Inl message"
  shows "stripe_webhook w e req st = ((400, Text (''Webhook Error: '' @ message)), st)"
  using assms by (simp add: stripe_webhook_def)

lemma stripe_webhook_li_rejected:
  assumes "constructEvent w (body req) (stripe_signature req) (STRIPE_WEBHOOK_SECRET e) = Inl message"
  shows "stripe_webhook_li w e req st = ((400, Text (''Webhook Error: '' @ message)), st)"
  using assms by (simp add: stripe_webhook_li_def)

lemma stripe_webhook_ignored:
  assumes "truthy (STRIPE_WEBHOOK_SECRET e)"
    and "constructEvent w (body req) (stripe_signature req) (STRIPE_WEBHOOK_SECRET e) = Inr ev"
    and "event_type ev \<noteq> ''checkout.session.completed''"
  shows "stripe_webhook w e req st = ((200, Json_received_true), st)"
  using assms by (simp add: stripe_webhook_def)

lemma stripe_webhook_li_ignored:
  assumes "constructEvent w (body req) (stripe_signature req) (STRIPE_WEBHOOK_SECRET e) = Inr ev"
    and "event_type ev \<noteq> ''checkout.session.completed''"
  shows "stripe_webhook_li w e req st = ((200, Text ''Event ignored''), st)"
  using assms by (simp add: stripe_webhook_li_def)

text \<open>
  C2 (as amended). A request whose signature the verifier rejects (invalid or
  missing) makes no outbound call and leaves the ledger as it was, in both
  variants. The reply is 400 with \<^verbatim>\<open>Webhook Error: \<close> followed by the
  verifier's message; in server.js that holds when the signing secret is
  configured, and without it the reply is 500 before any verification.
\<close>

theorem invalid_signature_rejected:
  assumes "constructEvent w (body req) (stripe_signature req) (STRIPE_WEBHOOK_SECRET e) = Inl message"
  shows "stripe_webhook w e req st =
           (if truthy (STRIPE_WEBHOOK_SECRET e)
            then ((400, Text (''Webhook Error: '' @ message)), st)
            else ((500, Text ''Webhook secret not configured''), st))
         \<and> stripe_webhook_li w e req st = ((400, Text (''Webhook Error: '' @ message)), st)
         \<and> filter is_append (calls (snd (stripe_webhook w e req st))) = filter is_append (calls st)
         \<and> filter is_append (calls (snd (stripe_webhook_li w e req st))) = filter is_append (calls st)"
  using assms stripe_webhook_rejected [of e w req message st]
    stripe_webhook_unconfigured [of e w req st] stripe_webhook_li_rejected [of w req e message st]
  by simp

theorem invalid_signature_rejected_witness:
  "constructEvent example_world (body (example_request None)) (stripe_signature (example_request None))
      (STRIPE_WEBHOOK_SECRET (example_env (Some ''whsec_test''))) =
     Inl ''No signatures found matching the expected signature for payload''
   \<and> stripe_webhook example_world (example_env (Some ''whsec_test'')) (example_request None) example_outside =
       ((400, Text ''Webhook Error: No signatures found matching the expected signature for payload''),
        example_outside)
   \<and> stripe_webhook_li example_world (example_env (Some ''whsec_test'')) (example_request None) example_outside =
       ((400, Text ''Webhook Error: No signatures found matching the expected signature for payload''),
        example_outside)"
  using invalid_signature_rejected [of example_world "example_request None"
      "example_env (Some ''whsec_test'')"
      "''No signatures found matching the expected signature for payload''" example_outside]
  by (simp add: example_world_def example_world_of_def example_request_def example_env_def truthy_def)

text \<open>
  C2 as stated fails in server.js: with no signing secret configured, a request
  without a signature is answered 500, not 400.
\<close>

theorem missing_signature_unconfigured_counterexample:
  "constructEvent example_world (body (example_request None)) (stripe_signature (example_request None))
      (STRIPE_WEBHOOK_SECRET (example_env None)) =
     Inl ''No signatures found matching the expected signature for payload''
   \<and> fst (fst (stripe_webhook example_world (example_env None) (example_request None) example_outside)) \<noteq> 400
   \<and> stripe_webhook example_world (example_env None) (example_request None) example_outside =
       ((500, Text ''Webhook secret not configured''), example_outside)"
  by (simp add: stripe_webhook_def example_world_def example_world_of_def example_request_def
      example_env_def truthy_def)

text \<open>
  C5 (as amended). A validly signed event of any type other than
  \<^verbatim>\<open>checkout.session.completed\<close> is answered 200 and nothing is written or
  called. The body is the JSON \<^verbatim>\<open>{"received": true}\<close> in server.js and the text
  \<^verbatim>\<open>Event ignored\<close> in the line-item variant.
\<close>

theorem other_events_acknowledged:
  assumes "constructEvent w (body req) (stripe_signature req) (STRIPE_WEBHOOK_SECRET e) = Inr ev"
    and "event_type ev \<noteq> ''checkout.session.completed''"
    and "truthy (STRIPE_WEBHOOK_SECRET e)"
  shows "stripe_webhook w e req st = ((200, Json_received_true), st)
         \<and> stripe_webhook_li w e req st = ((200, Text ''Event ignored''), st)
         \<and> filter is_append (calls (snd (stripe_webhook w e req st))) = filter is_append (calls st)
         \<and> filter is_append (calls (snd (stripe_webhook_li w e req st))) = filter is_append (calls st)
         \<and> sheet (snd (stripe_webhook w e req st)) = sheet st
         \<and> sheet (snd (stripe_webhook_li w e req st)) = sheet st"
  using stripe_webhook_ignored [OF assms(3) assms(1) assms(2), of st]
    stripe_webhook_li_ignored [OF assms(1) assms(2), of st]
  by simp

theorem other_events_acknowledged_witness:
  "constructEvent example_world_ignored (body (example_request (Some ''t=1,v1=5257a8'')))
      (stripe_signature (example_request (Some ''t=1,v1=5257a8'')))
      (STRIPE_WEBHOOK_SECRET (example_env (Some ''whsec_test''))) =
     Inr (example_event ''invoice.paid'' (example_session None (Some 25000)))
   \<and> stripe_webhook example_world_ignored (example_env (Some ''whsec_test''))
        (example_request (Some ''t=1,v1=5257a8'')) example_outside =
       ((200, Json_received_true), example_outside)
   \<and> stripe_webhook_li example_world_ignored (example_env (Some ''whsec_test''))
        (example_request (Some ''t=1,v1=5257a8'')) example_outside =
       ((200, Text ''Event ignored''), example_outside)"
  using other_events_acknowledged [of example_world_ignored "example_request (Some ''t=1,v1=5257a8'')"
      "example_env (Some ''whsec_test'')"
      "example_event ''invoice.paid'' (example_session None (Some 25000))" example_outside]
  by (simp add: example_world_ignored_def example_world_of_def example_request_def example_env_def
      example_event_def truthy_def)

text \<open>
  C5 as stated fails in the line-item variant: the body of the reply to an
  ignored event is not the JSON acknowledgment.
\<close>

theorem ignored_event_body_counterexample:
  "constructEvent example_world_ignored (body (example_request (Some ''t=1,v1=5257a8'')))
      (stripe_signature (example_request (Some ''t=1,v1=5257a8'')))
      (STRIPE_WEBHOOK_SECRET (example_env (Some ''whsec_test''))) =
     Inr (example_event ''invoice.paid'' (example_session None (Some 25000)))
   \<and> event_type (example_event ''invoice.paid'' (example_session None (Some 25000))) \<noteq>
       ''checkout.session.completed''
   \<and> fst (stripe_webhook_li example_world_ignored (example_env (Some ''whsec_test''))
        (example_request (Some ''t=1,v1=5257a8'')) example_outside) \<noteq> (200, Json_received_true)"
  by (simp add: stripe_webhook_li_def example_world_ignored_def example_world_of_def
      example_request_def example_env_def example_event_def)

section \<open>Configuration\<close>

lemma startup_ignores_webhook_secret:
  "startup w (e\<lparr>STRIPE_WEBHOOK_SECRET := x\<rparr>) = startup w e"
  by (simp add: startup_def)

text \<open>
  C9 (as amended). In server.js a missing webhook signing secret is found on
  each request, not at startup: every POST to the webhook is answered 500
  \<^verbatim>\<open>Webhook secret not configured\<close> with nothing verified, processed or called,
  while startup does not depend on that secret, so a process that started keeps
  serving. What stops the process at startup is a missing Stripe API key.
\<close>

theorem webhook_secret_checked_per_request:
  assumes "\<not> truthy (STRIPE_WEBHOOK_SECRET e)"
  shows "stripe_webhook w e req st = ((500, Text ''Webhook secret not configured''), st)
         \<and> startup w e = startup w (e\<lparr>STRIPE_WEBHOOK_SECRET := x\<rparr>)
         \<and> (startup w e = Listening \<longrightarrow>
               server w e (POST_stripe_webhook req) st =
                 (Some (500, Text ''Webhook secret not configured''), st)
               \<and> server w e GET_root st = (Some (200, Text ''AICX Stripe webhook is live.''), st))
         \<and> (\<not> truthy (STRIPE_SECRET_KEY e) \<longrightarrow>
               startup w e = Exited 1 \<and> server w e r st = (None, st))"
  using stripe_webhook_unconfigured [OF assms, of w req st] startup_ignores_webhook_secret [of w x e]
  by (simp add: server_def route_def startup_def)

theorem webhook_secret_checked_per_request_witness:
  "\<not> truthy (STRIPE_WEBHOOK_SECRET (example_env None))
   \<and> startup example_world (example_env None) = Listening
   \<and> server example_world (example_env None)
        (POST_stripe_webhook (example_request (Some ''t=1,v1=5257a8''))) example_outside =
       (Some (500, Text ''Webhook secret not configured''), example_outside)
   \<and> \<not> truthy (STRIPE_SECRET_KEY ((example_env None)\<lparr>STRIPE_SECRET_KEY := None\<rparr>))
   \<and> startup example_world ((example_env None)\<lparr>STRIPE_SECRET_KEY := None\<rparr>) = Exited 1"
  using webhook_secret_checked_per_request [of "example_env None" example_world
      "example_request (Some ''t=1,v1=5257a8'')" example_outside None GET_root]
    webhook_secret_checked_per_request [of "(example_env None)\<lparr>STRIPE_SECRET_KEY := None\<rparr>"
      example_world "example_request (Some ''t=1,v1=5257a8'')" example_outside None GET_root]
  by (simp add: example_env_def truthy_def startup_def example_world_def example_world_of_def
      or_string_def)

text \<open>
  C9 as stated fails: without a signing secret the process starts and serves.
\<close>

theorem unprovisioned_secret_still_serves_counterexample:
  "\<not> truthy (STRIPE_WEBHOOK_SECRET (example_env None))
   \<and> startup example_world (example_env None) \<noteq> Exited 1
   \<and> server example_world (example_env None) GET_root example_outside =
       (Some (200, Text ''AICX Stripe webhook is live.''), example_outside)"
  by (simp add: server_def route_def startup_def example_env_def truthy_def example_world_def
      example_world_of_def or_string_def)

section \<open>Ledger writer\<close>

lemma founder_row_cells:
  "founder_row f =
     [JStr (timestampUtc f), JStr (timestampLocal f), JStr (email f), JStr (tier f),
      JNum (amountTotal f), JNum (of_int (credits f)), JStr (sessionId f), JStr (customerId f),
      JStr (founder_notes f), JStr '''', JStr (agreementVersion f)]"
  by (simp add: founder_row_def or_string_def or_zero_def)

lemma appendToSheet_eq:
  "appendToSheet w e f st =
     values_append w (SPREADSHEET_ID e) (SHEET_NAME e @ ''!A:K'') (founder_row f) st"
  by (simp add: appendToSheet_def)

lemma appendToSheet_li_eq:
  "appendToSheet_li w e timestamp em tr amount cr sid cid st =
     values_append w (GOOGLE_SHEETS_SPREADSHEET_ID e)
       (or_string (GOOGLE_SHEETS_TAB_NAME e) ''Sheet1'' @ ''!A:H'')
       [JStr timestamp, JStr em, tr, JNum amount, cr, JStr sid, JStr cid, JStr ''''] st"
  by (simp add: appendToSheet_li_def)

lemma values_append_calls:
  "calls (snd (values_append w i r row st)) = calls st @ [ValuesAppend i r row]"
  by (simp add: values_append_eq split: option.splits)

lemma stripe_webhook_checkout:
  assumes "truthy (STRIPE_WEBHOOK_SECRET e)"
    and "constructEvent w (body req) (stripe_signature req) (STRIPE_WEBHOOK_SECRET e) = Inr ev"
    and "event_type ev = ''checkout.session.completed''"
  shows "stripe_webhook w e req st =
           (case append_failure w of
              None \<Rightarrow>
                ((200, Json_received_true),
                 st\<lparr>sheet := sheet st @ [founder_row (founderRecord w (data_object ev))],
                    calls := calls st @
                      [ValuesAppend (SPREADSHEET_ID e) (SHEET_NAME e @ ''!A:K'')
                         (founder_row (founderRecord w (data_object ev)))]\<rparr>)
            | Some msg \<Rightarrow>
                ((500, Text ''Internal Server Error''),
                 st\<lparr>calls := calls st @
                      [ValuesAppend (SPREADSHEET_ID e) (SHEET_NAME e @ ''!A:K'')
                         (founder_row (founderRecord w (data_object ev)))]\<rparr>))"
  using assms
  by (simp add: stripe_webhook_def handleCheckoutCompleted_def appendToSheet_eq values_append_eq
      split: option.splits)

text \<open>
  C8 (as amended). The writer of server.js sends one row of exactly eleven cells
  in the order Timestamp-UTC, Timestamp-Local, Email, Tier, AmountPaidUSD,
  Credits, SessionID, CustomerID, Notes, Status, AgreementVersion, to the range
  A:K; Status is always the empty string, and for the records the handler
  builds Notes is empty and AgreementVersion is \<^verbatim>\<open>v1.0\<close>. The writer of the
  line-item variant sends eight cells to the range A:H: timestamp, email, tier,
  amount, credits, session, customer and a final empty string.
\<close>

theorem ledger_row_layout:
  "founder_row f =
     [JStr (timestampUtc f), JStr (timestampLocal f), JStr (email f), JStr (tier f),
      JNum (amountTotal f), JNum (of_int (credits f)), JStr (sessionId f), JStr (customerId f),
      JStr (founder_notes f), JStr '''', JStr (agreementVersion f)]
   \<and> length (founder_row f) = 11
   \<and> founder_row f ! 9 = JStr ''''
   \<and> founder_row (founderRecord w s) ! 8 = JStr ''''
   \<and> founder_row (founderRecord w s) ! 10 = JStr ''v1.0''
   \<and> calls (snd (appendToSheet w e f st)) =
       calls st @ [ValuesAppend (SPREADSHEET_ID e) (SHEET_NAME e @ ''!A:K'') (founder_row f)]
   \<and> calls (snd (handleCheckoutCompleted w e s st)) =
       calls st @ [ValuesAppend (SPREADSHEET_ID e) (SHEET_NAME e @ ''!A:K'')
                     (founder_row (founderRecord w s))]
   \<and> calls (snd (appendToSheet_li w e timestamp em tr amount cr sid cid st)) =
       calls st @ [ValuesAppend (GOOGLE_SHEETS_SPREADSHEET_ID e)
                     (or_string (GOOGLE_SHEETS_TAB_NAME e) ''Sheet1'' @ ''!A:H'')
                     [JStr timestamp, JStr em, tr, JNum amount, cr, JStr sid, JStr cid, JStr '''']]"
proof -
  have blank: "founder_notes (founderRecord w s) = ''''"
    and version: "agreementVersion (founderRecord w s) = ''v1.0''"
    by (simp_all add: founderRecord_def Let_def AGREEMENT_VERSION_def)
  have a: "founder_row (founderRecord w s) ! 8 = JStr ''''"
    by (simp add: founder_row_cells blank)
  have b: "founder_row (founderRecord w s) ! 10 = JStr ''v1.0''"
    by (simp add: founder_row_cells version)
  have c: "founder_row f ! 9 = JStr ''''" "length (founder_row f) = 11"
    by (simp_all add: founder_row_cells)
  show ?thesis
    using a b c founder_row_cells [of f]
    by (simp add: handleCheckoutCompleted_def appendToSheet_eq appendToSheet_li_eq
        values_append_calls)
qed

text \<open>
  C8 as stated fails in the line-item variant: the row it writes has eight
  cells.
\<close>

theorem line_item_row_has_eight_columns_counterexample:
  "calls (snd (appendToSheet_li example_world (example_env (Some ''whsec_test''))
       ''2025-01-01T00:00:00.000Z'' ''founder@example.com'' (JStr ''Bronze'') 250 (JNum 325)
       ''cs_test_a1'' ''cus_1'' example_outside)) =
     [ValuesAppend (Some ''sheet_1'') ''Sheet1!A:H''
        [JStr ''2025-01-01T00:00:00.000Z'', JStr ''founder@example.com'', JStr ''Bronze'', JNum 250,
         JNum 325, JStr ''cs_test_a1'', JStr ''cus_1'', JStr '''']]
   \<and> length [JStr ''2025-01-01T00:00:00.000Z'', JStr ''founder@example.com'', JStr ''Bronze'',
        JNum 250, JNum 325, JStr ''cs_test_a1'', JStr ''cus_1'', JStr ''''] \<noteq> 11"
  by (simp add: appendToSheet_li_def values_append_def example_world_def example_world_of_def
      example_env_def example_outside_def or_string_def Let_def)

section \<open>Line-item handler\<close>


text \<open>
  An inherited name is found by the lookup, so the check for an unknown price
  does not reject it.
\<close>

lemma inherited_name_is_found:
  "TIER_CONFIG_get ''constructor'' = Inherited"
  by (simp add: TIER_CONFIG_get_def TIER_CONFIG_def Object_prototype_names_def)


lemma li_first_item:
  assumes "listLineItems w (session_id s) 10 = Inr (Some (i # rest))"
    and "item_price i = Some p"
  shows "handleCheckoutCompleted_li w e s st =
           (if TIER_CONFIG_get (price_id p) = Missing
            then (Inl (Error (''Unknown price ID: '' @ price_id p)),
                  st\<lparr>calls := calls st @ [ListLineItems (session_id s) 10]\<rparr>)
            else values_append w (GOOGLE_SHEETS_SPREADSHEET_ID e)
                   (or_string (GOOGLE_SHEETS_TAB_NAME e) ''Sheet1'' @ ''!A:H'')
                   [JStr (toISOString w),
                    JStr (or_string
                            (or_option
                               (case customer_details s of None \<Rightarrow> None | Some d \<Rightarrow> details_email d)
                               (customer_email s))
                            ''unknown''),
                    tier_of (TIER_CONFIG_get (price_id p)),
                    JNum (of_int (case amount_total s of None \<Rightarrow> 0 | Some c \<Rightarrow> c) / 100),
                    credits_of (TIER_CONFIG_get (price_id p)),
                    JStr (session_id s),
                    JStr (or_string (customer s) ''''),
                    JStr '''']
                   (st\<lparr>calls := calls st @ [ListLineItems (session_id s) 10]\<rparr>))"
  using assms by (simp add: handleCheckoutCompleted_li_def Let_def appendToSheet_li_eq)

lemma stripe_webhook_li_checkout:
  assumes "constructEvent w (body req) (stripe_signature req) (STRIPE_WEBHOOK_SECRET e) = Inr ev"
    and "event_type ev = ''checkout.session.completed''"
  shows "stripe_webhook_li w e req st =
           (case handleCheckoutCompleted_li w e (data_object ev) st of
              (Inl err, st') \<Rightarrow> ((500, Text ''Server error''), st')
            | (Inr u, st') \<Rightarrow> ((200, Text ''Received and processed''), st'))"
  using assms by (simp add: stripe_webhook_li_def)

text \<open>
  At an inherited name the line-item handler goes on with a tier and credits
  that are \<^verbatim>\<open>undefined\<close>.
\<close>

lemma li_inherited_name:
  assumes "listLineItems w (session_id s) 10 = Inr (Some (i # rest))"
    and "item_price i = Some p"
    and "price_id p \<in> set Object_prototype_names"
  shows "filter is_append (calls (snd (handleCheckoutCompleted_li w e s st))) \<noteq>
           filter is_append (calls st)"
proof -
  have "TIER_CONFIG_get (price_id p) \<noteq> Missing"
    using assms(3) by (simp add: TIER_CONFIG_get_def split: option.splits)
  with li_first_item [OF assms(1) assms(2), of e st] show ?thesis
    by (simp add: values_append_calls)
qed




lemma li_fetch_first:
  "take (Suc (length (calls st))) (calls (snd (handleCheckoutCompleted_li w e s st))) =
     calls st @ [ListLineItems (session_id s) 10]"
  by (simp add: handleCheckoutCompleted_li_def Let_def appendToSheet_li_eq values_append_eq
      split: sum.splits option.splits list.splits)

lemma li_other_items_ignored:
  assumes "listLineItems w (session_id s) 10 = Inr (Some (i # rest))"
    and "item_price i = Some p"
    and "item_price i' = Some p'"
    and "price_id p' = price_id p"
  shows "handleCheckoutCompleted_li (w\<lparr>listLineItems := \<lambda>sessionId limit. Inr (Some (i' # rest'))\<rparr>) e s st =
           handleCheckoutCompleted_li w e s st"
proof -
  let ?w' = "w\<lparr>listLineItems := \<lambda>sessionId limit. Inr (Some (i' # rest'))\<rparr>"
  have "listLineItems ?w' (session_id s) 10 = Inr (Some (i' # rest'))"
    by simp
  from li_first_item [OF this assms(3), of e st] li_first_item [OF assms(1) assms(2), of e st] assms(4)
  show ?thesis
    by (simp add: values_append_eq)
qed

lemma li_known_price:
  assumes "listLineItems w (session_id s) 10 = Inr (Some (i # rest))"
    and "item_price i = Some p"
    and "map_of TIER_CONFIG (price_id p) = Some config"
  shows "calls (snd (handleCheckoutCompleted_li w e s st)) =
           calls st @
           [ListLineItems (session_id s) 10,
            ValuesAppend (GOOGLE_SHEETS_SPREADSHEET_ID e)
              (or_string (GOOGLE_SHEETS_TAB_NAME e) ''Sheet1'' @ ''!A:H'')
              [JStr (toISOString w),
               JStr (or_string
                       (or_option
                          (case customer_details s of None \<Rightarrow> None | Some d \<Rightarrow> details_email d)
                          (customer_email s))
                       ''unknown''),
               JStr (config_tier config),
               JNum (of_int (case amount_total s of None \<Rightarrow> 0 | Some c \<Rightarrow> c) / 100),
               JNum (of_int (config_credits config)),
               JStr (session_id s),
               JStr (or_string (customer s) ''''),
               JStr '''']]"
proof -
  have "TIER_CONFIG_get (price_id p) = Own config"
    using assms(3) by (simp add: TIER_CONFIG_get_def)
  with li_first_item [OF assms(1) assms(2), of e st] show ?thesis
    by (simp add: values_append_calls tier_of_def credits_of_def)
qed

text \<open>
  C10. In the line-item variant the listing is requested with limit 10, and the
  outcome depends on the listing only through the price identifier of its
  first item: replacing the listing by any other whose first item has the same
  price identifier gives the same result and the same calls. When the
  identifier is a key of \<^verbatim>\<open>TIER_CONFIG\<close>, the row written carries that entry's
  tier and credits.
\<close>

theorem first_line_item_decides:
  assumes "listLineItems w (session_id s) 10 = Inr (Some (i # rest))"
    and "item_price i = Some p"
    and "item_price i' = Some p'"
    and "price_id p' = price_id p"
  shows "handleCheckoutCompleted_li (w\<lparr>listLineItems := \<lambda>sessionId limit. Inr (Some (i' # rest'))\<rparr>) e s st =
           handleCheckoutCompleted_li w e s st
         \<and> take (Suc (length (calls st))) (calls (snd (handleCheckoutCompleted_li w e s st))) =
             calls st @ [ListLineItems (session_id s) 10]
         \<and> (map_of TIER_CONFIG (price_id p) = Some config \<longrightarrow>
              calls (snd (handleCheckoutCompleted_li w e s st)) =
                calls st @
                [ListLineItems (session_id s) 10,
                 ValuesAppend (GOOGLE_SHEETS_SPREADSHEET_ID e)
                   (or_string (GOOGLE_SHEETS_TAB_NAME e) ''Sheet1'' @ ''!A:H'')
                   [JStr (toISOString w),
                    JStr (or_string
                            (or_option
                               (case customer_details s of None \<Rightarrow> None | Some d \<Rightarrow> details_email d)
                               (customer_email s))
                            ''unknown''),
                    JStr (config_tier config),
                    JNum (of_int (case amount_total s of None \<Rightarrow> 0 | Some c \<Rightarrow> c) / 100),
                    JNum (of_int (config_credits config)),
                    JStr (session_id s),
                    JStr (or_string (customer s) ''''),
                    JStr '''']])"
  using li_other_items_ignored [OF assms, of rest' e st] li_fetch_first [of st w e s]
    li_known_price [OF assms(1) assms(2), of config e st]
  by blast

theorem first_line_item_decides_witness:
  "calls (snd (handleCheckoutCompleted_li
       (example_world_of example_checkout
          [example_item ''price_1SWcyzHeOH2hxFO3a1RWyyv1'', example_item ''price_1SWdGPHeOH2hxFO3ZsLDEvhK'']
          None)
       (example_env (Some ''whsec_test'')) (data_object example_checkout) example_outside)) =
     [ListLineItems ''cs_test_a1'' 10,
      ValuesAppend (Some ''sheet_1'') ''Sheet1!A:H''
        [JStr ''2025-01-01T00:00:00.000Z'', JStr ''founder@example.com'', JStr ''Bronze'', JNum 250,
         JNum 325, JStr ''cs_test_a1'', JStr ''cus_1'', JStr '''']]"
  using first_line_item_decides [of
      "example_world_of example_checkout
         [example_item ''price_1SWcyzHeOH2hxFO3a1RWyyv1'', example_item ''price_1SWdGPHeOH2hxFO3ZsLDEvhK'']
         None"
      "data_object example_checkout"
      "example_item ''price_1SWcyzHeOH2hxFO3a1RWyyv1''"
      "[example_item ''price_1SWdGPHeOH2hxFO3ZsLDEvhK'']"
      "\<lparr>price_id = ''price_1SWcyzHeOH2hxFO3a1RWyyv1''\<rparr>"
      "example_item ''price_1SWcyzHeOH2hxFO3a1RWyyv1''"
      "\<lparr>price_id = ''price_1SWcyzHeOH2hxFO3a1RWyyv1''\<rparr>"
      "[]" "example_env (Some ''whsec_test'')" example_outside
      "\<lparr>config_tier = ''Bronze'', contribution = 250, config_credits = 325\<rparr>"]
  by (simp add: example_world_of_def example_env_def example_checkout_def
      example_event_def example_session_def example_outside_def example_item_def TIER_CONFIG_def
      or_string_def or_option_def truthy_def)

section \<open>Deliveries and the ledger\<close>

lemma stripe_webhook_li_written:
  assumes "constructEvent w (body req) (stripe_signature req) (STRIPE_WEBHOOK_SECRET e) = Inr ev"
    and "event_type ev = ''checkout.session.completed''"
    and "listLineItems w (session_id (data_object ev)) 10 = Inr (Some (i # rest))"
    and "item_price i = Some p"
    and "TIER_CONFIG_get (price_id p) \<noteq> Missing"
    and "row =
           [JStr (toISOString w),
            JStr (or_string
                    (or_option
                       (case customer_details (data_object ev) of
                          None \<Rightarrow> None
                        | Some d \<Rightarrow> details_email d)
                       (customer_email (data_object ev)))
                    ''unknown''),
            tier_of (TIER_CONFIG_get (price_id p)),
            JNum (of_int (case amount_total (data_object ev) of None \<Rightarrow> 0 | Some c \<Rightarrow> c) / 100),
            credits_of (TIER_CONFIG_get (price_id p)),
            JStr (session_id (data_object ev)),
            JStr (or_string (customer (data_object ev)) ''''),
            JStr '''']"
  shows "stripe_webhook_li w e req st =
           (case append_failure w of
              None \<Rightarrow>
                ((200, Text ''Received and processed''),
                 st\<lparr>sheet := sheet st @ [row],
                    calls := calls st @
                      [ListLineItems (session_id (data_object ev)) 10,
                       ValuesAppend (GOOGLE_SHEETS_SPREADSHEET_ID e)
                         (or_string (GOOGLE_SHEETS_TAB_NAME e) ''Sheet1'' @ ''!A:H'') row]\<rparr>)
            | Some msg \<Rightarrow>
                ((500, Text ''Server error''),
                 st\<lparr>calls := calls st @
                      [ListLineItems (session_id (data_object ev)) 10,
                       ValuesAppend (GOOGLE_SHEETS_SPREADSHEET_ID e)
                         (or_string (GOOGLE_SHEETS_TAB_NAME e) ''Sheet1'' @ ''!A:H'') row]\<rparr>))"
  using li_first_item [OF assms(3) assms(4), of e st] assms(5) assms(6)
  by (simp add: stripe_webhook_li_checkout [OF assms(1) assms(2)] values_append_eq
      split: option.splits)

text \<open>
  C7. A delivery of a checkout-completed event that reaches the handler (in the
  line-item variant: one whose first line item has a price the lookup finds)
  makes exactly one append call, and neither the reply nor the row depends on
  the ledger or on the calls made before: server.js makes no other outbound
  call, the line-item variant only the listing. When the append succeeds the
  row is added below the others, so the same event delivered twice leaves two
  rows.
\<close>

theorem every_delivery_appends_one_row:
  assumes "constructEvent w (body req) (stripe_signature req) (STRIPE_WEBHOOK_SECRET e) = Inr ev"
    and "event_type ev = ''checkout.session.completed''"
    and "row = founder_row (founderRecord w (data_object ev))"
    and "row_li =
           [JStr (toISOString w),
            JStr (or_string
                    (or_option
                       (case customer_details (data_object ev) of
                          None \<Rightarrow> None
                        | Some d \<Rightarrow> details_email d)
                       (customer_email (data_object ev)))
                    ''unknown''),
            tier_of (TIER_CONFIG_get (price_id p)),
            JNum (of_int (case amount_total (data_object ev) of None \<Rightarrow> 0 | Some c \<Rightarrow> c) / 100),
            credits_of (TIER_CONFIG_get (price_id p)),
            JStr (session_id (data_object ev)),
            JStr (or_string (customer (data_object ev)) ''''),
            JStr '''']"
  shows "(truthy (STRIPE_WEBHOOK_SECRET e) \<longrightarrow>
            calls (snd (stripe_webhook w e req st)) =
              calls st @ [ValuesAppend (SPREADSHEET_ID e) (SHEET_NAME e @ ''!A:K'') row]
            \<and> fst (stripe_webhook w e req st) = fst (stripe_webhook w e req st')
            \<and> (append_failure w = None \<longrightarrow>
                  fst (stripe_webhook w e req st) = (200, Json_received_true)
                  \<and> sheet (snd (stripe_webhook w e req st)) = sheet st @ [row]
                  \<and> sheet (snd (stripe_webhook w e req (snd (stripe_webhook w e req st)))) =
                      sheet st @ [row, row]))
         \<and> (listLineItems w (session_id (data_object ev)) 10 = Inr (Some (i # rest))
            \<and> item_price i = Some p \<and> TIER_CONFIG_get (price_id p) \<noteq> Missing \<longrightarrow>
            calls (snd (stripe_webhook_li w e req st)) =
              calls st @
              [ListLineItems (session_id (data_object ev)) 10,
               ValuesAppend (GOOGLE_SHEETS_SPREADSHEET_ID e)
                 (or_string (GOOGLE_SHEETS_TAB_NAME e) ''Sheet1'' @ ''!A:H'') row_li]
            \<and> fst (stripe_webhook_li w e req st) = fst (stripe_webhook_li w e req st')
            \<and> (append_failure w = None \<longrightarrow>
                  fst (stripe_webhook_li w e req st) = (200, Text ''Received and processed'')
                  \<and> sheet (snd (stripe_webhook_li w e req st)) = sheet st @ [row_li]
                  \<and> sheet (snd (stripe_webhook_li w e req (snd (stripe_webhook_li w e req st)))) =
                      sheet st @ [row_li, row_li]))"
proof (intro conjI impI)
  assume t: "truthy (STRIPE_WEBHOOK_SECRET e)"
  note eq = stripe_webhook_checkout [OF t assms(1) assms(2)]
  show "calls (snd (stripe_webhook w e req st)) =
          calls st @ [ValuesAppend (SPREADSHEET_ID e) (SHEET_NAME e @ ''!A:K'') row]"
    by (simp add: eq assms(3) split: option.splits)
  show "fst (stripe_webhook w e req st) = fst (stripe_webhook w e req st')"
    by (simp add: eq split: option.splits)
  assume up: "append_failure w = None"
  show "fst (stripe_webhook w e req st) = (200, Json_received_true)"
    by (simp add: eq up)
  show "sheet (snd (stripe_webhook w e req st)) = sheet st @ [row]"
    by (simp add: eq up assms(3))
  show "sheet (snd (stripe_webhook w e req (snd (stripe_webhook w e req st)))) = sheet st @ [row, row]"
    by (simp add: eq up assms(3))
next
  assume q: "listLineItems w (session_id (data_object ev)) 10 = Inr (Some (i # rest))
             \<and> item_price i = Some p \<and> TIER_CONFIG_get (price_id p) \<noteq> Missing"
  then have q1: "listLineItems w (session_id (data_object ev)) 10 = Inr (Some (i # rest))"
    and q2: "item_price i = Some p" and q3: "TIER_CONFIG_get (price_id p) \<noteq> Missing"
    by simp_all
  note eq = stripe_webhook_li_written [OF assms(1) assms(2) q1 q2 q3 assms(4)]
  show "calls (snd (stripe_webhook_li w e req st)) =
          calls st @
          [ListLineItems (session_id (data_object ev)) 10,
           ValuesAppend (GOOGLE_SHEETS_SPREADSHEET_ID e)
             (or_string (GOOGLE_SHEETS_TAB_NAME e) ''Sheet1'' @ ''!A:H'') row_li]"
    by (simp add: eq split: option.splits)
  show "fst (stripe_webhook_li w e req st) = fst (stripe_webhook_li w e req st')"
    by (simp add: eq split: option.splits)
  assume up: "append_failure w = None"
  show "fst (stripe_webhook_li w e req st) = (200, Text ''Received and processed'')"
    by (simp add: eq up)
  show "sheet (snd (stripe_webhook_li w e req st)) = sheet st @ [row_li]"
    by (simp add: eq up)
  show "sheet (snd (stripe_webhook_li w e req (snd (stripe_webhook_li w e req st)))) =
          sheet st @ [row_li, row_li]"
    by (simp add: eq up)
qed

lemma example_founder_row:
  "founder_row (founderRecord example_world_bronze (data_object example_checkout)) = example_row"
  by (simp add: founder_row_cells founderRecord_def example_world_bronze_def example_world_of_def
      example_checkout_def example_event_def example_session_def example_row_def Let_def
      resolveTier_def resolveCredits_def metadata_tier_def Math_round_def or_zero_def
      or_string_def or_option_def truthy_def AGREEMENT_VERSION_def)

theorem every_delivery_appends_one_row_witness:
  "sheet (snd (stripe_webhook example_world_bronze (example_env (Some ''whsec_test''))
       (example_request (Some ''t=1,v1=5257a8''))
       (snd (stripe_webhook example_world_bronze (example_env (Some ''whsec_test''))
          (example_request (Some ''t=1,v1=5257a8'')) example_outside)))) =
     [example_row, example_row]
   \<and> sheet (snd (stripe_webhook_li example_world_bronze (example_env (Some ''whsec_test''))
       (example_request (Some ''t=1,v1=5257a8''))
       (snd (stripe_webhook_li example_world_bronze (example_env (Some ''whsec_test''))
          (example_request (Some ''t=1,v1=5257a8'')) example_outside)))) =
     [example_row_li, example_row_li]
   \<and> calls (snd (stripe_webhook example_world_bronze (example_env (Some ''whsec_test''))
       (example_request (Some ''t=1,v1=5257a8'')) example_outside)) =
     [ValuesAppend (Some ''sheet_1'') ''Sheet1!A:K'' example_row]"
  using every_delivery_appends_one_row [where w = example_world_bronze
      and req = "example_request (Some ''t=1,v1=5257a8'')"
      and e = "example_env (Some ''whsec_test'')" and ev = example_checkout
      and row = example_row and row_li = example_row_li
      and p = "\<lparr>price_id = ''price_1SWcyzHeOH2hxFO3a1RWyyv1''\<rparr>"
      and i = "example_item ''price_1SWcyzHeOH2hxFO3a1RWyyv1''"
      and rest = "[example_item ''price_1SWdGPHeOH2hxFO3ZsLDEvhK'']"
      and st = example_outside and st' = example_outside]
    example_founder_row
  by (simp add: example_world_bronze_def example_world_of_def example_request_def example_env_def
      example_checkout_def example_event_def example_session_def example_outside_def
      example_item_def example_row_li_def TIER_CONFIG_get_def TIER_CONFIG_def tier_of_def
      credits_of_def or_string_def or_option_def truthy_def SPREADSHEET_ID_def SHEET_NAME_def)

end
